theory Spec2Isabelle
  imports Complex_Main "HOL-Library.Word" "HOL-Library.Signed_Division"
begin

section \<open>Values of the Go program\<close>

text \<open>
  The embedding follows \<^verbatim>\<open>src/ecspresso.go\<close>. A Go pointer is an \<open>option\<close>
  (\<open>None\<close> is \<open>nil\<close>), a slice is a list, a \<^verbatim>\<open>map[string]*string\<close> is a partial map
  (a missing key and a nil value both read as nil). A function that returns an
  \<^verbatim>\<open>error\<close> returns a \<open>result\<close>:
  \<open>Ok\<close> for a nil error, \<open>Err\<close> for a returned error, \<open>Panic\<close> for a run-time panic
  (nil dereference, index out of range).
\<close>

datatype error = New string | Wrap error string

datatype 'a result = Ok 'a | Err error | Panic

text \<open>A \<^verbatim>\<open>time.Time\<close> is the instant it denotes, in nanoseconds since the epoch.\<close>

type_synonym Time = int

definition After :: "Time \<Rightarrow> Time \<Rightarrow> bool" where
  "After t u = (u < t)"

text \<open>
  A \<^verbatim>\<open>time.Duration\<close> is an \<^verbatim>\<open>int64\<close> count of nanoseconds. Go's \<^verbatim>\<open>/\<close> and \<^verbatim>\<open>%\<close> on
  signed integers truncate towards zero (\<open>sdiv\<close> and \<open>smod\<close> on \<open>int\<close>); the result is
  stored back in 64 bits.
\<close>

type_synonym Duration = "64 word"

definition Second :: Duration where
  "Second = 1000000000"

definition div64 :: "64 word \<Rightarrow> 64 word \<Rightarrow> 64 word" where
  "div64 a b = word_of_int (sint a sdiv sint b)"

definition rem64 :: "64 word \<Rightarrow> 64 word \<Rightarrow> 64 word" where
  "rem64 a b = word_of_int (sint a smod sint b)"

text \<open>What the program writes to standard output: \<^verbatim>\<open>log.Println\<close> with its arguments
  (the logger's output is set to standard output by \<^verbatim>\<open>Start\<close>) and \<^verbatim>\<open>fmt.Println\<close>.\<close>

datatype printed = LogPrintln "string list" | FmtPrintln string

section \<open>Library functions the program calls\<close>

text \<open>\<^verbatim>\<open>strings.Split(s, sep)\<close> for a separator of one character, the only kind the
  program passes: the pieces of \<open>s\<close> between the occurrences of \<open>sep\<close>, in order.
  \<open>Split_from\<close> carries the piece read so far.\<close>

fun Split_from :: "string \<Rightarrow> char \<Rightarrow> string \<Rightarrow> string list" where
  "Split_from [] sep piece = [piece]"
| "Split_from (c # s) sep piece =
     (if c = sep then piece # Split_from s sep [] else Split_from s sep (piece @ [c]))"

definition Split :: "string \<Rightarrow> char \<Rightarrow> string list" where
  "Split s sep = Split_from s sep []"

text \<open>\<^verbatim>\<open>strings.Join(elems, sep)\<close>.\<close>

fun Join :: "string list \<Rightarrow> string \<Rightarrow> string" where
  "Join [] sep = []"
| "Join [e] sep = e"
| "Join (e # es) sep = e @ sep @ Join es sep"

text \<open>An index expression \<^verbatim>\<open>xs[i]\<close>: out of range it panics (\<open>None\<close>).\<close>

definition index :: "'a list \<Rightarrow> nat \<Rightarrow> 'a option" where
  "index xs i = (if i < length xs then Some (xs ! i) else None)"

text \<open>\<^verbatim>\<open>strconv.FormatInt(i, 10)\<close> and the verbs \<^verbatim>\<open>%d\<close> and \<^verbatim>\<open>%t\<close> of \<^verbatim>\<open>fmt\<close>.\<close>

fun digits :: "nat \<Rightarrow> string" where
  "digits n =
     (if n < 10 then [char_of (48 + n)] else digits (n div 10) @ [char_of (48 + n mod 10)])"

declare digits.simps [simp del]

definition FormatInt :: "64 word \<Rightarrow> string" where
  "FormatInt i = (if sint i < 0 then CHR ''-'' # digits (nat (- sint i)) else digits (nat (sint i)))"

definition FormatBool :: "bool \<Rightarrow> string" where
  "FormatBool b = (if b then ''true'' else ''false'')"

text \<open>The package variable \<^verbatim>\<open>TerminalWidth\<close>.\<close>

definition TerminalWidth :: int where
  "TerminalWidth = 90"

section \<open>Requests and responses of the platform\<close>

text \<open>
  The structures of the platform's SDK are declared outside \<^verbatim>\<open>src/\<close>. Each record below has
  the fields the program reads or writes, with the SDK's pointer types; the records of the
  platform's answers are extensible, so a statement about one holds whatever else it
  carries.
\<close>

record DescribeServicesInput =
  Cluster :: "string option"
  Services :: "string option list"

record Deployment =
  Status :: "string option"
  TaskDefinition :: "string option"
  DesiredCount :: "64 word option"
  PendingCount :: "64 word option"
  RunningCount :: "64 word option"

record ServiceEvent =
  CreatedAt :: "Time option"
  Message :: "string option"

record Service =
  ServiceName :: "string option"
  Deployments :: "Deployment list"
  Events :: "ServiceEvent list"

record DescribeServicesOutput =
  Services :: "Service list"

record Container =
  Name :: "string option"
  ExitCode :: "64 word option"
  Reason :: "string option"

record Task =
  TaskArn :: "string option"
  Containers :: "Container list"

record Failure =
  Arn :: "string option"
  Reason :: "string option"

record DescribeTasksInput =
  Cluster :: "string option"
  Tasks :: "string option list"

record DescribeTasksOutput =
  Failures :: "Failure list"
  Tasks :: "Task list"

record ListTaskDefinitionsInput =
  NextToken :: "string option"
  FamilyPrefix :: "string option"
  MaxResults :: "64 word option"
  Sort :: "string option"

record ListTaskDefinitionsOutput =
  TaskDefinitionArns :: "string list"
  NextToken :: "string option"

record LogConfiguration =
  LogDriver :: "string option"
  Options :: "string \<rightharpoonup> string"

record ContainerDefinition =
  Name :: "string option"
  LogConfiguration :: "LogConfiguration option"

typedecl TaskDefinitionPlacementConstraint
typedecl ProxyConfiguration
typedecl Volume

text \<open>
  Modelled from the spec: the SDK's task definition, whose declaration is not under
  \<^verbatim>\<open>src/\<close>. It has the eleven fields \<^verbatim>\<open>RegisterTaskDefinition\<close> copies, the two
  \<^verbatim>\<open>taskDefinitionName\<close> and \<^verbatim>\<open>Run\<close> read (\<open>Revision\<close>, \<open>TaskDefinitionArn\<close>), and the
  platform-assigned ones the spec names besides (status, registration timestamp).
\<close>

record TaskDefinition =
  ContainerDefinitions :: "ContainerDefinition list"
  Cpu :: "string option"
  ExecutionRoleArn :: "string option"
  Family :: "string option"
  Memory :: "string option"
  NetworkMode :: "string option"
  PlacementConstraints :: "TaskDefinitionPlacementConstraint list"
  RequiresCompatibilities :: "string option list"
  TaskRoleArn :: "string option"
  ProxyConfiguration :: "ProxyConfiguration option"
  Volumes :: "Volume list"
  Revision :: "64 word option"
  Status :: "string option"
  TaskDefinitionArn :: "string option"
  RegisteredAt :: "Time option"

record RegisterTaskDefinitionInput =
  ContainerDefinitions :: "ContainerDefinition list"
  Cpu :: "string option"
  ExecutionRoleArn :: "string option"
  Family :: "string option"
  Memory :: "string option"
  NetworkMode :: "string option"
  PlacementConstraints :: "TaskDefinitionPlacementConstraint list"
  RequiresCompatibilities :: "string option list"
  TaskRoleArn :: "string option"
  ProxyConfiguration :: "ProxyConfiguration option"
  Volumes :: "Volume list"

record RegisterTaskDefinitionOutput =
  TaskDefinition :: "TaskDefinition option"

record DescribeScalableTargetsInput =
  ResourceIds :: "string option list"
  ServiceNamespace :: "string option"
  ScalableDimension :: "string option"

record ScalableTarget =
  ServiceNamespace :: "string option"
  ScalableDimension :: "string option"
  ResourceId :: "string option"

record DescribeScalableTargetsOutput =
  ScalableTargets :: "ScalableTarget list"

record SuspendedState =
  DynamicScalingInSuspended :: "bool option"
  DynamicScalingOutSuspended :: "bool option"
  ScheduledScalingSuspended :: "bool option"

record RegisterScalableTargetInput =
  ServiceNamespace :: "string option"
  ScalableDimension :: "string option"
  ResourceId :: "string option"
  SuspendedState :: "SuspendedState option"

datatype WaiterDelay = ConstantWaiterDelay Duration

datatype WaiterOption = WithWaiterDelay WaiterDelay | WithWaiterMaxAttempts "64 word"

text \<open>
  The clients of the container platform and of its autoscaling service. Each operation is
  a function of its request: one call of a function below sees one state of the platform
  (one family history, one service record). An operation answers with an error (\<open>Inl\<close>)
  or with its output; a waiter answers with an error or nil. The context a call is given
  only decides whether the platform answers with an error, so it is not a parameter, and
  the pauses of \<^verbatim>\<open>time.Sleep\<close> leave no trace in a result. The functions that call an
  operation of interest return the requests they issued, in order.
\<close>

record ECS =
  DescribeServicesWithContext :: "DescribeServicesInput \<Rightarrow> error + DescribeServicesOutput"
  DescribeTasksWithContext :: "DescribeTasksInput \<Rightarrow> error + DescribeTasksOutput"
  ListTaskDefinitionsWithContext ::
    "ListTaskDefinitionsInput \<Rightarrow> error + ListTaskDefinitionsOutput"
  RegisterTaskDefinitionWithContext ::
    "RegisterTaskDefinitionInput \<Rightarrow> error + RegisterTaskDefinitionOutput"
  WaitUntilServicesStableWithContext ::
    "DescribeServicesInput \<Rightarrow> WaiterOption list \<Rightarrow> error option"
  WaitUntilTasksStoppedWithContext :: "DescribeTasksInput \<Rightarrow> error option"

record ApplicationAutoScaling =
  DescribeScalableTargets ::
    "DescribeScalableTargetsInput \<Rightarrow> error + DescribeScalableTargetsOutput"
  RegisterScalableTarget :: "RegisterScalableTargetInput \<Rightarrow> error + unit"

record Config =
  Timeout :: Duration

record App =
  ecs :: ECS
  autoScaling :: ApplicationAutoScaling
  Service :: string
  Cluster :: string
  config :: Config
  Debug :: bool

text \<open>A goroutine started by a wait: the loop that redraws on every tick until the
  wait's context is cancelled. \<open>DeploymentRenderer startedAt\<close> calls
  \<^verbatim>\<open>DescribeServiceDeployments\<close> at each tick; \<open>LogTailer logGroup logStream startedAt\<close>
  calls \<^verbatim>\<open>GetLogEvents\<close> at each tick, the only place the program fetches logs.\<close>

datatype goroutine =
  DeploymentRenderer Time
| LogTailer string string Time

section \<open>The program\<close>

definition DescribeServicesInput :: "App \<Rightarrow> DescribeServicesInput" where
  "DescribeServicesInput d =
     \<lparr>DescribeServicesInput.Cluster = Some (App.Cluster d),
      DescribeServicesInput.Services = [Some (Service d)]\<rparr>"

definition DescribeTasksInput :: "App \<Rightarrow> 'a Task_scheme \<Rightarrow> DescribeTasksInput" where
  "DescribeTasksInput d task =
     \<lparr>DescribeTasksInput.Cluster = Some (App.Cluster d),
      DescribeTasksInput.Tasks = [TaskArn task]\<rparr>"

definition Name :: "App \<Rightarrow> string" where
  "Name d = Service d @ ''/'' @ App.Cluster d"

definition Log :: "App \<Rightarrow> string list \<Rightarrow> printed" where
  "Log d v = LogPrintln ([Name d] @ v)"

definition ofError :: "error option \<Rightarrow> unit result" where
  "ofError e = (case e of None \<Rightarrow> Ok () | Some err \<Rightarrow> Err err)"

subsection \<open>DescribeServiceDeployments\<close>

text \<open>
  The formatters \<^verbatim>\<open>formatDeployment\<close> and \<^verbatim>\<open>formatEvent\<close> are defined outside \<^verbatim>\<open>src/\<close>;
  they are parameters. The function returns what it printed and its line count; on an
  error the count is 0.
\<close>

fun DescribeServiceDeployments_deployments ::
  "App \<Rightarrow> ('a Deployment_scheme \<Rightarrow> string) \<Rightarrow> nat \<Rightarrow> 'a Deployment_scheme list \<Rightarrow>
   printed list \<times> nat" where
  "DescribeServiceDeployments_deployments d formatDeployment lines [] = ([], lines)"
| "DescribeServiceDeployments_deployments d formatDeployment lines (dep # deps) =
     (case DescribeServiceDeployments_deployments d formatDeployment (lines + 1) deps of
        (out, lines') \<Rightarrow> (Log d [formatDeployment dep] # out, lines'))"

fun DescribeServiceDeployments_events ::
  "('a ServiceEvent_scheme \<Rightarrow> int \<Rightarrow> string list) \<Rightarrow> Time \<Rightarrow> nat \<Rightarrow>
   'a ServiceEvent_scheme list \<Rightarrow> printed list \<times> nat result" where
  "DescribeServiceDeployments_events formatEvent startedAt lines [] = ([], Ok lines)"
| "DescribeServiceDeployments_events formatEvent startedAt lines (event # events) =
     (case CreatedAt event of
        None \<Rightarrow> ([], Panic)
      | Some createdAt \<Rightarrow>
          if After createdAt startedAt then
            (let ls = formatEvent event TerminalWidth in
             case DescribeServiceDeployments_events formatEvent startedAt
                    (lines + length ls) events of
               (out, r) \<Rightarrow> (map FmtPrintln ls @ out, r))
          else DescribeServiceDeployments_events formatEvent startedAt lines events)"

definition DescribeServiceDeployments ::
  "App \<Rightarrow> (Deployment \<Rightarrow> string) \<Rightarrow> (ServiceEvent \<Rightarrow> int \<Rightarrow> string list) \<Rightarrow> Time \<Rightarrow>
   printed list \<times> nat result" where
  "DescribeServiceDeployments d formatDeployment formatEvent startedAt =
     (case DescribeServicesWithContext (ecs d) (DescribeServicesInput d) of
        Inl err \<Rightarrow> ([], Err err)
      | Inr out \<Rightarrow>
          if length (DescribeServicesOutput.Services out) = 0 then ([], Ok 0)
          else
            (case index (DescribeServicesOutput.Services out) 0 of
               None \<Rightarrow> ([], Panic)
             | Some s \<Rightarrow>
                 (case DescribeServiceDeployments_deployments d formatDeployment 0
                         (Deployments s) of
                    (out1, lines) \<Rightarrow>
                      (case DescribeServiceDeployments_events formatEvent startedAt lines
                              (Events s) of
                         (out2, r) \<Rightarrow> (out1 @ out2, r)))))"

subsection \<open>DescribeTaskStatus\<close>

text \<open>The loop that looks for the container called \<open>name\<close>: \<open>Ok None\<close> when no
  container has the name.\<close>

fun DescribeTaskStatus_find ::
  "string \<Rightarrow> 'a Container_scheme list \<Rightarrow> 'a Container_scheme option result" where
  "DescribeTaskStatus_find name [] = Ok None"
| "DescribeTaskStatus_find name (c # cs) =
     (case Container.Name c of
        None \<Rightarrow> Panic
      | Some n \<Rightarrow> if n = name then Ok (Some c) else DescribeTaskStatus_find name cs)"

definition DescribeTaskStatus_container :: "'a Container_scheme \<Rightarrow> unit result" where
  "DescribeTaskStatus_container container =
     (if ExitCode container \<noteq> None \<and> ExitCode container \<noteq> Some 0 then
        (case Container.Name container of
           None \<Rightarrow> Panic
         | Some name \<Rightarrow>
             (let msg = ''Container: '' @ name @ '', Exit Code: '' @
                        FormatInt (the (ExitCode container)) in
              case Container.Reason container of
                None \<Rightarrow> Err (New msg)
              | Some reason \<Rightarrow> Err (New (msg @ '', Reason: '' @ reason))))
      else if Container.Reason container \<noteq> None then
        (case Container.Name container of
           None \<Rightarrow> Panic
         | Some name \<Rightarrow>
             Err (New (''Container: '' @ name @ '', Reason: '' @
                       the (Container.Reason container))))
      else Ok ())"

definition DescribeTaskStatus ::
  "App \<Rightarrow> 'a Task_scheme \<Rightarrow> string option \<Rightarrow> printed list \<times> unit result" where
  "DescribeTaskStatus d task name =
     (case DescribeTasksWithContext (ecs d) (DescribeTasksInput d task) of
        Inl err \<Rightarrow> ([], Err err)
      | Inr out \<Rightarrow>
          if length (Failures out) > 0 then
            (case index (Failures out) 0 of
               None \<Rightarrow> ([], Panic)
             | Some f \<Rightarrow>
                 (case Arn f of
                    None \<Rightarrow> ([], Panic)
                  | Some arn \<Rightarrow>
                      (case Failure.Reason f of
                         None \<Rightarrow> ([Log d [''Task ARN: '' @ arn]], Panic)
                       | Some reason \<Rightarrow> ([Log d [''Task ARN: '' @ arn]], Err (New reason)))))
          else
            (case (case name of
                     None \<Rightarrow> Ok None
                   | Some n \<Rightarrow>
                       (case index (DescribeTasksOutput.Tasks out) 0 of
                          None \<Rightarrow> Panic
                        | Some t \<Rightarrow> DescribeTaskStatus_find n (Containers t))) of
               Panic \<Rightarrow> ([], Panic)
             | Err e \<Rightarrow> ([], Err e)
             | Ok (Some container) \<Rightarrow> ([], DescribeTaskStatus_container container)
             | Ok None \<Rightarrow>
                 (case index (DescribeTasksOutput.Tasks out) 0 of
                    None \<Rightarrow> ([], Panic)
                  | Some t \<Rightarrow>
                      (case index (Containers t) 0 of
                         None \<Rightarrow> ([], Panic)
                       | Some container \<Rightarrow> ([], DescribeTaskStatus_container container)))))"

subsection \<open>FindRollbackTarget\<close>

text \<open>
  The inner loop over one page: \<open>Inl tdArn\<close> when it returns \<open>tdArn\<close>, \<open>Inr found\<close> with
  the flag when it reaches the end of the page. The elements of the page are the strings
  the SDK allocated, so dereferencing one is reading it.
\<close>

fun FindRollbackTarget_page :: "string \<Rightarrow> bool \<Rightarrow> string list \<Rightarrow> string + bool" where
  "FindRollbackTarget_page taskDefinitionArn found [] = Inr found"
| "FindRollbackTarget_page taskDefinitionArn found (tdArn # tdArns) =
     (if found then Inl tdArn
      else FindRollbackTarget_page taskDefinitionArn
             (if tdArn = taskDefinitionArn then True else found) tdArns)"

definition FindRollbackTarget_input :: "string \<Rightarrow> string option \<Rightarrow> ListTaskDefinitionsInput" where
  "FindRollbackTarget_input family nextToken =
     \<lparr>ListTaskDefinitionsInput.NextToken = nextToken,
      FamilyPrefix = Some family,
      MaxResults = Some 100,
      Sort = Some ''DESC''\<rparr>"

text \<open>
  The outer \<^verbatim>\<open>for\<close> loop has no bound, so it is a partial function: \<open>None\<close> is a run that
  never returns. It returns the requests it issued and the result.
\<close>

partial_function (option) FindRollbackTarget_loop ::
  "App \<Rightarrow> string \<Rightarrow> string \<Rightarrow> bool \<Rightarrow> string option \<Rightarrow> ListTaskDefinitionsInput list \<Rightarrow>
   (ListTaskDefinitionsInput list \<times> string result) option" where
  "FindRollbackTarget_loop d taskDefinitionArn family found nextToken issued =
     (case ListTaskDefinitionsWithContext (ecs d) (FindRollbackTarget_input family nextToken) of
        Inl err \<Rightarrow>
          Some (issued @ [FindRollbackTarget_input family nextToken],
                Err (Wrap err ''failed to list taskdefinitions''))
      | Inr out \<Rightarrow>
          if length (TaskDefinitionArns out) = 0 then
            Some (issued @ [FindRollbackTarget_input family nextToken],
                  Err (New ''rollback target is not found''))
          else
            (case FindRollbackTarget_page taskDefinitionArn found (TaskDefinitionArns out) of
               Inl tdArn \<Rightarrow>
                 Some (issued @ [FindRollbackTarget_input family nextToken], Ok tdArn)
             | Inr found' \<Rightarrow>
                 FindRollbackTarget_loop d taskDefinitionArn family found'
                   (ListTaskDefinitionsOutput.NextToken out)
                   (issued @ [FindRollbackTarget_input family nextToken])))"

text \<open>\<^verbatim>\<open>arnToName\<close> is defined outside \<^verbatim>\<open>src/\<close>; it is a parameter.\<close>

definition FindRollbackTarget ::
  "(string \<Rightarrow> string) \<Rightarrow> App \<Rightarrow> string \<Rightarrow> (ListTaskDefinitionsInput list \<times> string result) option"
  where
  "FindRollbackTarget arnToName d taskDefinitionArn =
     (case index (Split (arnToName taskDefinitionArn) CHR '':'') 0 of
        None \<Rightarrow> Some ([], Panic)
      | Some family \<Rightarrow> FindRollbackTarget_loop d taskDefinitionArn family False None [])"

text \<open>
  A family history as the platform lists it: \<open>serves d family token pages\<close> says that
  the request with \<open>token\<close> is answered with the first page and its next token, the
  request with that token with the second page, and so on down \<open>pages\<close>.
  \<open>requests family token pages\<close> are those requests.
\<close>

fun serves :: "App \<Rightarrow> string \<Rightarrow> string option \<Rightarrow> (string list \<times> string option) list \<Rightarrow> bool"
  where
  "serves d family token [] = True"
| "serves d family token (page # pages) =
     (ListTaskDefinitionsWithContext (ecs d) (FindRollbackTarget_input family token) =
        Inr \<lparr>TaskDefinitionArns = fst page, ListTaskDefinitionsOutput.NextToken = snd page\<rparr> \<and>
      serves d family (snd page) pages)"

fun requests ::
  "string \<Rightarrow> string option \<Rightarrow> (string list \<times> string option) list \<Rightarrow>
   ListTaskDefinitionsInput list" where
  "requests family token [] = []"
| "requests family token (page # pages) =
     FindRollbackTarget_input family token # requests family (snd page) pages"

text \<open>The page token the loop holds after the pages \<open>pages\<close>, having started with
  \<open>token\<close>.\<close>

definition token_after ::
  "string option \<Rightarrow> (string list \<times> string option) list \<Rightarrow> string option" where
  "token_after token pages = (if pages = [] then token else snd (last pages))"

subsection \<open>WaitServiceStable\<close>

text \<open>
  \<open>attempts\<close> is the local variable of that name, an \<^verbatim>\<open>int\<close>: the quotient of an
  \<^verbatim>\<open>int64\<close> by fifteen seconds is below \<open>2 ^ 30\<close> in absolute value, so the conversion
  keeps it whatever the width of \<^verbatim>\<open>int\<close>. The function returns what it logged, the
  goroutine it started and what the waiter answered.
\<close>

definition delay :: Duration where
  "delay = 15 * Second"

definition attempts :: "Duration \<Rightarrow> 64 word" where
  "attempts timeout =
     (let attempts = div64 timeout delay + 1
      in if 0 < sint (rem64 timeout delay) then attempts + 1 else attempts)"

definition WaitServiceStable ::
  "App \<Rightarrow> Time \<Rightarrow> printed list \<times> goroutine list \<times> unit result" where
  "WaitServiceStable d startedAt =
     ([Log d [''Waiting for service stable...(it will take a few minutes)'']],
      [DeploymentRenderer startedAt],
      ofError (WaitUntilServicesStableWithContext (ecs d) (DescribeServicesInput d)
        [WithWaiterDelay (ConstantWaiterDelay delay),
         WithWaiterMaxAttempts (attempts (Timeout (config d)))]))"

subsection \<open>RegisterTaskDefinition\<close>

definition taskDefinitionName :: "'a TaskDefinition_scheme \<Rightarrow> string option" where
  "taskDefinitionName t =
     (case TaskDefinition.Family t of
        None \<Rightarrow> None
      | Some family \<Rightarrow>
          (case Revision t of
             None \<Rightarrow> None
           | Some revision \<Rightarrow> Some (family @ '':'' @ FormatInt revision)))"

definition RegisterTaskDefinition ::
  "App \<Rightarrow> 'a TaskDefinition_scheme \<Rightarrow>
   printed list \<times> RegisterTaskDefinitionInput list \<times> TaskDefinition result" where
  "RegisterTaskDefinition d td =
     (let input =
        \<lparr>RegisterTaskDefinitionInput.ContainerDefinitions = TaskDefinition.ContainerDefinitions td,
         Cpu = TaskDefinition.Cpu td,
         ExecutionRoleArn = TaskDefinition.ExecutionRoleArn td,
         Family = TaskDefinition.Family td,
         Memory = TaskDefinition.Memory td,
         NetworkMode = TaskDefinition.NetworkMode td,
         PlacementConstraints = TaskDefinition.PlacementConstraints td,
         RequiresCompatibilities = TaskDefinition.RequiresCompatibilities td,
         TaskRoleArn = TaskDefinition.TaskRoleArn td,
         ProxyConfiguration = TaskDefinition.ProxyConfiguration td,
         Volumes = TaskDefinition.Volumes td\<rparr>
      in case RegisterTaskDefinitionWithContext (ecs d) input of
           Inl err \<Rightarrow> ([Log d [''Registering a new task definition...'']], [input], Err err)
         | Inr out \<Rightarrow>
             (case TaskDefinition out of
                None \<Rightarrow> ([Log d [''Registering a new task definition...'']], [input], Panic)
              | Some new \<Rightarrow>
                  (case taskDefinitionName new of
                     None \<Rightarrow> ([Log d [''Registering a new task definition...'']], [input], Panic)
                   | Some name \<Rightarrow>
                       ([Log d [''Registering a new task definition...''],
                         Log d [''Task definition is registered'', name]],
                        [input], Ok new))))"

subsection \<open>GetLogInfo and WaitRunTask\<close>

definition GetLogInfo ::
  "App \<Rightarrow> 'a Task_scheme \<Rightarrow> LogConfiguration option \<Rightarrow> printed list \<times> (string \<times> string) result"
  where
  "GetLogInfo d task lc =
     (case TaskArn task of
        None \<Rightarrow> ([], Panic)
      | Some taskArn \<Rightarrow>
      (case index (Split taskArn CHR ''/'') 1 of
        None \<Rightarrow> ([], Panic)
      | Some taskId \<Rightarrow>
      (case lc of
        None \<Rightarrow> ([], Panic)
      | Some lc' \<Rightarrow>
      (case Options lc' ''awslogs-stream-prefix'' of
        None \<Rightarrow> ([], Panic)
      | Some logStreamPrefix \<Rightarrow>
      (case index (Containers task) 0 of
        None \<Rightarrow> ([], Panic)
      | Some container \<Rightarrow>
      (case Container.Name container of
        None \<Rightarrow> ([], Panic)
      | Some containerName \<Rightarrow>
      (let logStream = Join [logStreamPrefix, containerName, taskId] ''/'' in
       case Options lc' ''awslogs-group'' of
        None \<Rightarrow> ([], Panic)
      | Some logGroup \<Rightarrow>
          ([Log d [''logGroup:'', logGroup], Log d [''logStream:'', logStream]],
           Ok (logGroup, logStream)))))))))"

definition WaitRunTask ::
  "App \<Rightarrow> 'a Task_scheme \<Rightarrow> LogConfiguration option \<Rightarrow> Time \<Rightarrow>
   printed list \<times> goroutine list \<times> unit result" where
  "WaitRunTask d task lc startedAt =
     (let plain =
        ([Log d [''Waiting for run task...(it may take a while)''],
          Log d [''awslogs not configured'']],
         [],
         ofError (WaitUntilTasksStoppedWithContext (ecs d) (DescribeTasksInput d task)))
      in case lc of
           None \<Rightarrow> plain
         | Some lc' \<Rightarrow>
             (case LogDriver lc' of
                None \<Rightarrow> ([Log d [''Waiting for run task...(it may take a while)'']], [], Panic)
              | Some logDriver \<Rightarrow>
                  if logDriver \<noteq> ''awslogs'' \<or> Options lc' ''awslogs-stream-prefix'' = None
                  then plain
                  else
                    (case GetLogInfo d task lc of
                       (out, Ok (logGroup, logStream)) \<Rightarrow>
                         ([Log d [''Waiting for run task...(it may take a while)'']] @ out,
                          [LogTailer logGroup logStream startedAt],
                          ofError (WaitUntilTasksStoppedWithContext (ecs d)
                                     (DescribeTasksInput d task)))
                     | (out, Err e) \<Rightarrow>
                         ([Log d [''Waiting for run task...(it may take a while)'']] @ out,
                          [], Err e)
                     | (out, Panic) \<Rightarrow>
                         ([Log d [''Waiting for run task...(it may take a while)'']] @ out,
                          [], Panic))))"

subsection \<open>suspendAutoScaling\<close>

definition suspendAutoScaling_input ::
  "bool \<Rightarrow> 'a ScalableTarget_scheme \<Rightarrow> RegisterScalableTargetInput" where
  "suspendAutoScaling_input suspend target =
     \<lparr>RegisterScalableTargetInput.ServiceNamespace = ScalableTarget.ServiceNamespace target,
      RegisterScalableTargetInput.ScalableDimension = ScalableTarget.ScalableDimension target,
      RegisterScalableTargetInput.ResourceId = ScalableTarget.ResourceId target,
      SuspendedState = Some
        \<lparr>DynamicScalingInSuspended = Some suspend,
         DynamicScalingOutSuspended = Some suspend,
         ScheduledScalingSuspended = Some suspend\<rparr>\<rparr>"

text \<open>The loop over the targets: what it logged, the updates it issued, its result.\<close>

fun suspendAutoScaling_targets ::
  "App \<Rightarrow> bool \<Rightarrow> 'a ScalableTarget_scheme list \<Rightarrow>
   printed list \<times> RegisterScalableTargetInput list \<times> unit result" where
  "suspendAutoScaling_targets d suspend [] = ([], [], Ok ())"
| "suspendAutoScaling_targets d suspend (target # targets) =
     (case ScalableTarget.ResourceId target of
        None \<Rightarrow> ([], [], Panic)
      | Some resourceId \<Rightarrow>
          (let line = Log d [''Register scalable target '' @ resourceId @
                             '' set suspend to '' @ FormatBool suspend];
               input = suspendAutoScaling_input suspend target
           in case RegisterScalableTarget (autoScaling d) input of
                Inl err \<Rightarrow>
                  ([line], [input],
                   Err (Wrap err (''failed to register scalable target '' @ resourceId @
                                  '' set suspend to '' @ FormatBool suspend)))
              | Inr _ \<Rightarrow>
                  (case suspendAutoScaling_targets d suspend targets of
                     (out, issued, r) \<Rightarrow> (line # out, input # issued, r))))"

definition suspendAutoScaling_describe :: "App \<Rightarrow> DescribeScalableTargetsInput" where
  "suspendAutoScaling_describe d =
     \<lparr>ResourceIds = [Some (''service/'' @ App.Cluster d @ ''/'' @ Service d)],
      DescribeScalableTargetsInput.ServiceNamespace = Some ''ecs'',
      DescribeScalableTargetsInput.ScalableDimension = Some ''ecs:service:DesiredCount''\<rparr>"

definition suspendAutoScaling ::
  "App \<Rightarrow> bool \<Rightarrow> printed list \<times> RegisterScalableTargetInput list \<times> unit result" where
  "suspendAutoScaling d suspend =
     (case DescribeScalableTargets (autoScaling d) (suspendAutoScaling_describe d) of
        Inl err \<Rightarrow> ([], [], Err (Wrap err ''failed to describe scalable targets''))
      | Inr out \<Rightarrow>
          if length (ScalableTargets out) = 0 then
            ([Log d [''No scalable target for '' @
                     ''service/'' @ App.Cluster d @ ''/'' @ Service d]], [], Ok ())
          else suspendAutoScaling_targets d suspend (ScalableTargets out))"

subsection \<open>Example platforms\<close>

text \<open>A platform that answers every request with an error, and an application on given
  clients with a given timeout; the concrete runs below start from these.\<close>

definition offline_ecs :: ECS where
  "offline_ecs =
     \<lparr>DescribeServicesWithContext = (\<lambda>_. Inl (New ''offline'')),
      DescribeTasksWithContext = (\<lambda>_. Inl (New ''offline'')),
      ListTaskDefinitionsWithContext = (\<lambda>_. Inl (New ''offline'')),
      RegisterTaskDefinitionWithContext = (\<lambda>_. Inl (New ''offline'')),
      WaitUntilServicesStableWithContext = (\<lambda>_ _. Some (New ''offline'')),
      WaitUntilTasksStoppedWithContext = (\<lambda>_. Some (New ''offline''))\<rparr>"

definition offline_autoScaling :: ApplicationAutoScaling where
  "offline_autoScaling =
     \<lparr>DescribeScalableTargets = (\<lambda>_. Inl (New ''offline'')),
      RegisterScalableTarget = (\<lambda>_. Inl (New ''offline''))\<rparr>"

definition app :: "ECS \<Rightarrow> ApplicationAutoScaling \<Rightarrow> Duration \<Rightarrow> App" where
  "app e a timeout =
     \<lparr>ecs = e, autoScaling = a, Service = ''web'', Cluster = ''prod'',
      config = \<lparr>Timeout = timeout\<rparr>, Debug = False\<rparr>"

text \<open>Platforms that answer one operation: with a service record, with the described
  tasks, with the pages of a family (by page token), with a set of scalable targets and
  an answer to each update.\<close>

definition ecs_with_services :: "Service list \<Rightarrow> ECS" where
  "ecs_with_services ss =
     offline_ecs\<lparr>DescribeServicesWithContext :=
       (\<lambda>_. Inr \<lparr>DescribeServicesOutput.Services = ss\<rparr>)\<rparr>"

definition ecs_with_tasks :: "Task list \<Rightarrow> ECS" where
  "ecs_with_tasks ts =
     offline_ecs\<lparr>DescribeTasksWithContext :=
       (\<lambda>_. Inr \<lparr>Failures = [], DescribeTasksOutput.Tasks = ts\<rparr>)\<rparr>"

definition ecs_with_pages :: "(string option \<Rightarrow> string list \<times> string option) \<Rightarrow> ECS" where
  "ecs_with_pages pages =
     offline_ecs\<lparr>ListTaskDefinitionsWithContext :=
       (\<lambda>input. Inr \<lparr>TaskDefinitionArns = fst (pages (ListTaskDefinitionsInput.NextToken input)),
                      ListTaskDefinitionsOutput.NextToken =
                        snd (pages (ListTaskDefinitionsInput.NextToken input))\<rparr>)\<rparr>"

definition autoScaling_with ::
  "ScalableTarget list \<Rightarrow> (RegisterScalableTargetInput \<Rightarrow> error + unit) \<Rightarrow>
   ApplicationAutoScaling" where
  "autoScaling_with targets update =
     \<lparr>DescribeScalableTargets = (\<lambda>_. Inr \<lparr>ScalableTargets = targets\<rparr>),
      RegisterScalableTarget = update\<rparr>"

definition event_at :: "Time \<Rightarrow> string \<Rightarrow> ServiceEvent" where
  "event_at createdAt message = \<lparr>CreatedAt = Some createdAt, Message = Some message\<rparr>"

definition named_container :: "string \<Rightarrow> 64 word option \<Rightarrow> string option \<Rightarrow> Container" where
  "named_container name exitCode reason =
     \<lparr>Container.Name = Some name, ExitCode = exitCode, Container.Reason = reason\<rparr>"

definition target_of :: "string \<Rightarrow> ScalableTarget" where
  "target_of resourceId =
     \<lparr>ScalableTarget.ServiceNamespace = Some ''ecs'',
      ScalableTarget.ScalableDimension = Some ''ecs:service:DesiredCount'',
      ScalableTarget.ResourceId = Some resourceId\<rparr>"

section \<open>Waiter arithmetic\<close>

lemma delay_sint: "sint delay = 15000000000"
  by (simp add: delay_def Second_def)

lemma sint_word_of_int_64:
  "- (2 ^ 63) \<le> k \<Longrightarrow> k < 2 ^ 63 \<Longrightarrow> sint (word_of_int k :: 64 word) = k"
  by (simp add: signed_of_int signed_take_bit_int_eq_self)

lemma sint_64_bounds:
  "- 9223372036854775808 \<le> sint (t :: 64 word) \<and> sint t < 9223372036854775808"
  using sint_ge [of t] sint_lt [of t] by simp

lemma sdiv_pos: "0 \<le> (a::int) \<Longrightarrow> a sdiv 15000000000 = a div 15000000000"
  by (simp add: signed_divide_int_def sgn_if)

lemma sdiv_neg: "(a::int) < 0 \<Longrightarrow> a sdiv 15000000000 = - ((- a) div 15000000000)"
  by (simp add: signed_divide_int_def sgn_if)

lemma smod_pos: "0 \<le> (a::int) \<Longrightarrow> a smod 15000000000 = a mod 15000000000"
  by (simp add: signed_modulo_int_def sgn_if)

lemma smod_neg: "(a::int) < 0 \<Longrightarrow> a smod 15000000000 = - ((- a) mod 15000000000)"
  by (simp add: signed_modulo_int_def sgn_if)

text \<open>The remainder by the delay fits in 64 bits, and so do the quotient and the count
  of attempts: no step of the computation wraps around.\<close>

lemma sint_rem64_delay: "sint (rem64 t delay) = sint t smod 15000000000"
proof -
  have "- (2 ^ 63) \<le> sint t smod 15000000000 \<and> sint t smod 15000000000 < 2 ^ 63"
  proof (cases "0 \<le> sint t")
    case True
    have "sint t mod 15000000000 < 15000000000" "0 \<le> sint t mod 15000000000" by simp_all
    then show ?thesis using True by (simp add: smod_pos) linarith
  next
    case False
    have "(- sint t) mod 15000000000 < 15000000000" "0 \<le> (- sint t) mod 15000000000"
      by simp_all
    then show ?thesis using False by (simp add: smod_neg) linarith
  qed
  then show ?thesis by (simp add: rem64_def delay_sint sint_word_of_int_64)
qed

lemma attempts_word:
  "attempts t =
     word_of_int (sint t sdiv 15000000000 + (if 0 < sint t smod 15000000000 then 2 else 1))"
  by (simp add: attempts_def Let_def sint_rem64_delay div64_def delay_sint)

lemma sint_attempts:
  "sint (attempts t) =
     sint t sdiv 15000000000 + (if 0 < sint t smod 15000000000 then 2 else 1)"
proof -
  have b: "- 9223372036854775808 \<le> sint t \<and> sint t < 9223372036854775808"
    by (rule sint_64_bounds)
  let ?k = "sint t sdiv 15000000000 + (if 0 < sint t smod 15000000000 then 2 else 1)"
  have "- (2 ^ 63) \<le> ?k \<and> ?k < 2 ^ 63"
  proof (cases "0 \<le> sint t")
    case True
    then show ?thesis using b by (simp add: sdiv_pos) linarith
  next
    case False
    then show ?thesis using b by (simp add: sdiv_neg) linarith
  qed
  then show ?thesis unfolding attempts_word by (simp only: sint_word_of_int_64)
qed

lemma ceiling_sint_delay:
  "\<lceil>real_of_int a / real_of_int (sint delay)\<rceil> = - ((- a) div 15000000000)"
  using ceiling_divide_eq_div [of a "sint delay"] by (simp only: delay_sint)

lemma sint_attempts_ceiling:
  "sint (attempts t) = \<lceil>real_of_int (sint t) / real_of_int (sint delay)\<rceil> + 1"
proof (cases "0 \<le> sint t")
  case True
  have "0 \<le> sint t mod 15000000000" by simp
  then have "\<not> 0 < sint t mod 15000000000 \<longrightarrow> sint t mod 15000000000 = 0" by linarith
  with True show ?thesis
    unfolding ceiling_sint_delay sint_attempts
    by (simp add: sdiv_pos smod_pos zdiv_zminus1_eq_if)
next
  case False
  then have "\<not> 0 < sint t smod 15000000000" by (simp add: smod_neg)
  with False show ?thesis
    unfolding ceiling_sint_delay sint_attempts
    by (simp add: sdiv_neg)
qed

text \<open>
  C3. For a non-negative timeout, \<^verbatim>\<open>WaitServiceStable\<close> calls the waiter with the constant
  delay of 15 seconds and with max-attempts \<open>floor (timeout / delay) + 1\<close>, one more when
  \<open>timeout mod delay > 0\<close>; so attempts times delay is at least the timeout.
\<close>

theorem WaitServiceStable_max_attempts:
  assumes "0 \<le> sint (Timeout (config d))"
  shows "snd (snd (WaitServiceStable d startedAt)) =
           ofError (WaitUntilServicesStableWithContext (ecs d) (DescribeServicesInput d)
             [WithWaiterDelay (ConstantWaiterDelay delay),
              WithWaiterMaxAttempts (attempts (Timeout (config d)))]) \<and>
         sint delay = 15 * 1000000000 \<and>
         sint (attempts (Timeout (config d))) =
           sint (Timeout (config d)) div sint delay + 1 +
           (if 0 < sint (Timeout (config d)) mod sint delay then 1 else 0) \<and>
         sint (Timeout (config d)) \<le> sint (attempts (Timeout (config d))) * sint delay"
proof -
  let ?t = "sint (Timeout (config d))"
  have a: "sint (attempts (Timeout (config d))) =
             ?t div 15000000000 + (if 0 < ?t mod 15000000000 then 2 else 1)"
    using assms by (simp add: sint_attempts sdiv_pos smod_pos)
  define q where "q = ?t div 15000000000"
  define r where "r = ?t mod 15000000000"
  have "?t = q * 15000000000 + r" "r < 15000000000"
    by (simp_all add: q_def r_def)
  then have "?t \<le> (q + 1) * 15000000000" by (simp add: algebra_simps)
  then have "?t \<le> (?t div 15000000000 + 1) * 15000000000" by (simp only: q_def)
  then have le: "?t \<le> sint (attempts (Timeout (config d))) * 15000000000"
    unfolding a by (simp split: if_splits)
  show ?thesis
    using a le by (simp add: WaitServiceStable_def delay_sint)
qed

theorem WaitServiceStable_max_attempts_witness:
  "sint (attempts (20 * Second)) = 3 \<and>
   sint (20 * Second) \<le> sint (attempts (20 * Second)) * sint delay"
  using WaitServiceStable_max_attempts
          [of "app offline_ecs offline_autoScaling (20 * Second)" 0]
  by (simp add: app_def Second_def delay_sint)

text \<open>
  C4, as stated: attempts is \<open>ceil (timeout / delay)\<close> when the timeout is not an exact
  multiple of the delay. At a timeout of one second the program computes 2 attempts, and
  \<open>ceil (1 / 15)\<close> is 1.
\<close>

theorem attempts_ceiling_counterexample:
  "sint Second mod sint delay \<noteq> 0 \<and>
   sint (attempts Second) = 2 \<and>
   \<lceil>real_of_int (sint Second) / real_of_int (sint delay)\<rceil> = 1"
proof -
  have "sint (attempts Second) = 2"
    by (simp add: sint_attempts Second_def signed_divide_int_def signed_modulo_int_def)
  moreover have "\<lceil>real_of_int (sint Second) / real_of_int (sint delay)\<rceil> = 1"
    unfolding ceiling_sint_delay by (simp add: Second_def)
  moreover have "sint Second mod sint delay \<noteq> 0"
    by (simp add: Second_def delay_sint)
  ultimately show ?thesis by simp
qed

text \<open>
  C4, amended: for every timeout, attempts is \<open>ceil (timeout / delay) + 1\<close> when the
  timeout is not an exact multiple of the delay of 15 seconds, and \<open>timeout / delay + 1\<close>
  when it is.
\<close>

theorem attempts_ceiling_plus_one:
  "(sint timeout mod sint delay \<noteq> 0 \<longrightarrow>
      sint (attempts timeout) =
        \<lceil>real_of_int (sint timeout) / real_of_int (sint delay)\<rceil> + 1) \<and>
   (sint timeout mod sint delay = 0 \<longrightarrow>
      sint (attempts timeout) = sint timeout div sint delay + 1)"
proof -
  have c: "sint (attempts timeout) =
             \<lceil>real_of_int (sint timeout) / real_of_int (sint delay)\<rceil> + 1"
    by (rule sint_attempts_ceiling)
  have "sint timeout mod 15000000000 = 0 \<Longrightarrow>
          - ((- sint timeout) div 15000000000) = sint timeout div 15000000000"
    by (simp add: zdiv_zminus1_eq_if)
  then have "sint timeout mod sint delay = 0 \<Longrightarrow>
          \<lceil>real_of_int (sint timeout) / real_of_int (sint delay)\<rceil> = sint timeout div sint delay"
    unfolding ceiling_sint_delay by (simp only: delay_sint)
  with c show ?thesis by simp
qed

theorem attempts_ceiling_plus_one_witness:
  "sint (attempts Second) = \<lceil>real_of_int (sint Second) / real_of_int (sint delay)\<rceil> + 1 \<and>
   sint (attempts (30 * Second)) = sint (30 * Second) div sint delay + 1"
proof -
  have "sint Second mod sint delay \<noteq> 0" "sint (30 * Second) mod sint delay = 0"
    by (simp_all add: Second_def delay_sint)
  then show ?thesis
    using attempts_ceiling_plus_one [of Second] attempts_ceiling_plus_one [of "30 * Second"]
    by simp
qed

section \<open>Registration\<close>

text \<open>
  C5. The request \<^verbatim>\<open>RegisterTaskDefinition\<close> sends (the only one it issues) has the eleven
  allow-listed fields, each copied from the loaded definition, and nothing else of it:
  the request is the same whatever the definition's revision number, status, ARN,
  registration timestamp and any further field are.
\<close>

theorem RegisterTaskDefinition_request:
  "fst (snd (RegisterTaskDefinition d td)) =
     [\<lparr>RegisterTaskDefinitionInput.ContainerDefinitions = TaskDefinition.ContainerDefinitions td,
       Cpu = TaskDefinition.Cpu td,
       ExecutionRoleArn = TaskDefinition.ExecutionRoleArn td,
       Family = TaskDefinition.Family td,
       Memory = TaskDefinition.Memory td,
       NetworkMode = TaskDefinition.NetworkMode td,
       PlacementConstraints = TaskDefinition.PlacementConstraints td,
       RequiresCompatibilities = TaskDefinition.RequiresCompatibilities td,
       TaskRoleArn = TaskDefinition.TaskRoleArn td,
       ProxyConfiguration = TaskDefinition.ProxyConfiguration td,
       Volumes = TaskDefinition.Volumes td\<rparr>] \<and>
   fst (snd (RegisterTaskDefinition d
      (td\<lparr>Revision := revision, TaskDefinition.Status := status,
          TaskDefinitionArn := arn, RegisteredAt := registeredAt,
          TaskDefinition.more := other\<rparr>))) =
     fst (snd (RegisterTaskDefinition d td))"
  by (simp add: RegisterTaskDefinition_def Let_def split: sum.splits option.splits)

section \<open>Deployments and events of a tick\<close>

lemma deployments_loop:
  "DescribeServiceDeployments_deployments d fd lines deps =
     (map (\<lambda>dep. Log d [fd dep]) deps, lines + length deps)"
  by (induction deps arbitrary: lines) simp_all

lemma events_loop:
  "\<forall>e\<in>set events. CreatedAt e \<noteq> None \<Longrightarrow>
   DescribeServiceDeployments_events fe startedAt lines events =
     (map FmtPrintln (concat (map (\<lambda>e. fe e TerminalWidth)
        (filter (\<lambda>e. case CreatedAt e of None \<Rightarrow> False | Some c \<Rightarrow> startedAt < c) events))),
      Ok (lines + length (concat (map (\<lambda>e. fe e TerminalWidth)
        (filter (\<lambda>e. case CreatedAt e of None \<Rightarrow> False | Some c \<Rightarrow> startedAt < c) events)))))"
  by (induction events arbitrary: lines) (auto simp: After_def Let_def split: option.splits)

text \<open>
  C7. When the platform answers with a service record whose events carry their creation
  time, \<^verbatim>\<open>DescribeServiceDeployments\<close> logs one line for every deployment of the record,
  then prints the lines of exactly the events created strictly after \<open>startedAt\<close>, in
  order, and returns the number of lines.
\<close>

theorem DescribeServiceDeployments_prints:
  assumes "DescribeServicesWithContext (ecs d) (DescribeServicesInput d) = Inr out"
    and "DescribeServicesOutput.Services out = s # rest"
    and "\<forall>e\<in>set (Events s). CreatedAt e \<noteq> None"
  shows "DescribeServiceDeployments d formatDeployment formatEvent startedAt =
           (map (\<lambda>dep. Log d [formatDeployment dep]) (Deployments s) @
            map FmtPrintln (concat (map (\<lambda>e. formatEvent e TerminalWidth)
              (filter (\<lambda>e. case CreatedAt e of None \<Rightarrow> False | Some c \<Rightarrow> startedAt < c)
                 (Events s)))),
            Ok (length (Deployments s) +
                length (concat (map (\<lambda>e. formatEvent e TerminalWidth)
                  (filter (\<lambda>e. case CreatedAt e of None \<Rightarrow> False | Some c \<Rightarrow> startedAt < c)
                     (Events s))))))"
  using assms
  by (simp add: DescribeServiceDeployments_def index_def deployments_loop events_loop)

theorem DescribeServiceDeployments_prints_witness:
  "DescribeServiceDeployments
     (app (ecs_with_services
        [\<lparr>ServiceName = Some ''web'',
          Deployments = [\<lparr>Deployment.Status = Some ''PRIMARY'', TaskDefinition = None,
             DesiredCount = None, PendingCount = None, RunningCount = None\<rparr>],
          Events = [event_at 90 ''a'', event_at 95 ''b'', event_at 100 ''c'', event_at 105 ''d'',
                    event_at 110 ''e'']\<rparr>])
        offline_autoScaling 0)
     (\<lambda>dep. case Deployment.Status dep of None \<Rightarrow> [] | Some st \<Rightarrow> st)
     (\<lambda>e w. case Message e of None \<Rightarrow> [] | Some m \<Rightarrow> [m])
     100 =
   ([LogPrintln [''web/prod'', ''PRIMARY''], FmtPrintln ''d'', FmtPrintln ''e''], Ok 3)"
  using DescribeServiceDeployments_prints
    [of "app (ecs_with_services
        [\<lparr>ServiceName = Some ''web'',
          Deployments = [\<lparr>Deployment.Status = Some ''PRIMARY'', TaskDefinition = None,
             DesiredCount = None, PendingCount = None, RunningCount = None\<rparr>],
          Events = [event_at 90 ''a'', event_at 95 ''b'', event_at 100 ''c'', event_at 105 ''d'',
                    event_at 110 ''e'']\<rparr>])
        offline_autoScaling 0"
      _ _ "[]"
      "(\<lambda>dep. case Deployment.Status dep of None \<Rightarrow> [] | Some st \<Rightarrow> st)"
      "(\<lambda>e w. case Message e of None \<Rightarrow> [] | Some m \<Rightarrow> [m])"
      100]
  by (simp add: app_def ecs_with_services_def offline_ecs_def event_at_def Log_def Name_def)

section \<open>Status of a stopped task\<close>

lemma find_container:
  "\<forall>c\<in>set cs. Container.Name c \<noteq> None \<Longrightarrow>
   DescribeTaskStatus_find n cs = Ok (find (\<lambda>c. Container.Name c = Some n) cs)"
  by (induction cs) (auto split: option.splits)

lemma container_Ok:
  "DescribeTaskStatus_container c = Ok () \<longleftrightarrow>
     (ExitCode c = None \<or> ExitCode c = Some 0) \<and> Container.Reason c = None"
  by (auto simp: DescribeTaskStatus_container_def Let_def split: option.splits)

lemma container_Err:
  "Container.Name c \<noteq> None \<Longrightarrow>
   (\<exists>e. DescribeTaskStatus_container c = Err e) \<longleftrightarrow>
     (\<exists>x. ExitCode c = Some x \<and> x \<noteq> 0) \<or> Container.Reason c \<noteq> None"
  by (auto simp: DescribeTaskStatus_container_def Let_def split: option.splits)

lemma find_in_set: "find P xs = Some x \<Longrightarrow> x \<in> set xs"
  by (induction xs) (auto split: if_splits)

text \<open>
  C9. The describe call succeeds with no failure entry and with the task, whose
  containers are named. The inspected container is the first one with the watched name,
  or the task's first container when no name is given or none has it.
  \<^verbatim>\<open>DescribeTaskStatus\<close> returns an error if and only if that container has a non-zero
  exit code or a reason, and returns nil if and only if its exit code is zero or absent
  and it has no reason.
\<close>

theorem DescribeTaskStatus_error_iff:
  assumes "DescribeTasksWithContext (ecs d) (DescribeTasksInput d task) = Inr out"
    and "Failures out = []"
    and "DescribeTasksOutput.Tasks out = t # ts"
    and "Containers t = c0 # cs"
    and "\<forall>c\<in>set (Containers t). Container.Name c \<noteq> None"
    and "inspected =
           (case name of
              None \<Rightarrow> c0
            | Some n \<Rightarrow>
                (case find (\<lambda>c. Container.Name c = Some n) (Containers t) of
                   None \<Rightarrow> c0
                 | Some c \<Rightarrow> c))"
  shows "((\<exists>e. snd (DescribeTaskStatus d task name) = Err e) \<longleftrightarrow>
            (\<exists>x. ExitCode inspected = Some x \<and> x \<noteq> 0) \<or> Container.Reason inspected \<noteq> None) \<and>
         (snd (DescribeTaskStatus d task name) = Ok () \<longleftrightarrow>
            (ExitCode inspected = None \<or> ExitCode inspected = Some 0) \<and>
            Container.Reason inspected = None)"
proof -
  have run: "snd (DescribeTaskStatus d task name) = DescribeTaskStatus_container inspected"
  proof (cases name)
    case None
    then show ?thesis
      using assms by (simp add: DescribeTaskStatus_def index_def)
  next
    case (Some n)
    show ?thesis
    proof (cases "find (\<lambda>c. Container.Name c = Some n) (Containers t)")
      case None
      then show ?thesis
        using assms Some find_container [of "Containers t" n]
        by (simp add: DescribeTaskStatus_def index_def)
    next
      case (Some c)
      then show ?thesis
        using assms \<open>name = Some n\<close> find_container [of "Containers t" n]
        by (simp add: DescribeTaskStatus_def index_def)
    qed
  qed
  have "inspected \<in> set (Containers t)"
    using assms(4,6) by (auto split: option.splits dest: find_in_set)
  then have "Container.Name inspected \<noteq> None"
    using assms(5) by blast
  then show ?thesis
    unfolding run using container_Ok [of inspected] container_Err [of inspected] by blast
qed

theorem DescribeTaskStatus_error_iff_witness:
  "(\<exists>e. snd (DescribeTaskStatus
       (app (ecs_with_tasks
          [\<lparr>TaskArn = Some ''arn:task/1'',
            Containers = [named_container ''app'' (Some 0) None, named_container ''job'' (Some 1) None]\<rparr>])
          offline_autoScaling 0)
       \<lparr>TaskArn = Some ''arn:task/1'', Containers = []\<rparr> (Some ''job'')) = Err e) \<and>
   snd (DescribeTaskStatus
       (app (ecs_with_tasks
          [\<lparr>TaskArn = Some ''arn:task/1'',
            Containers = [named_container ''app'' (Some 0) None, named_container ''job'' (Some 1) None]\<rparr>])
          offline_autoScaling 0)
       \<lparr>TaskArn = Some ''arn:task/1'', Containers = []\<rparr> None) = Ok ()"
  using
    DescribeTaskStatus_error_iff
      [of "app (ecs_with_tasks
          [\<lparr>TaskArn = Some ''arn:task/1'',
            Containers = [named_container ''app'' (Some 0) None, named_container ''job'' (Some 1) None]\<rparr>])
          offline_autoScaling 0"
        "\<lparr>TaskArn = Some ''arn:task/1'', Containers = []\<rparr>" _ _ "[]"
        "named_container ''app'' (Some 0) None" "[named_container ''job'' (Some 1) None]"
        "named_container ''job'' (Some 1) None" "Some ''job''"]
    DescribeTaskStatus_error_iff
      [of "app (ecs_with_tasks
          [\<lparr>TaskArn = Some ''arn:task/1'',
            Containers = [named_container ''app'' (Some 0) None, named_container ''job'' (Some 1) None]\<rparr>])
          offline_autoScaling 0"
        "\<lparr>TaskArn = Some ''arn:task/1'', Containers = []\<rparr>" _ _ "[]"
        "named_container ''app'' (Some 0) None" "[named_container ''job'' (Some 1) None]"
        "named_container ''app'' (Some 0) None" None]
  by (simp add: app_def ecs_with_tasks_def offline_ecs_def named_container_def)

section \<open>Suspending and resuming autoscaling\<close>

lemma targets_all_succeed:
  "\<forall>t\<in>set targets. ScalableTarget.ResourceId t \<noteq> None \<Longrightarrow>
   \<forall>t\<in>set targets. RegisterScalableTarget (autoScaling d) (suspendAutoScaling_input suspend t) = Inr () \<Longrightarrow>
   fst (snd (suspendAutoScaling_targets d suspend targets)) =
     map (suspendAutoScaling_input suspend) targets \<and>
   snd (snd (suspendAutoScaling_targets d suspend targets)) = Ok ()"
  by (induction targets) (auto simp: Let_def split: prod.splits)

lemma targets_abort:
  "\<forall>t\<in>set pre. ScalableTarget.ResourceId t \<noteq> None \<Longrightarrow>
   \<forall>t\<in>set pre. RegisterScalableTarget (autoScaling d) (suspendAutoScaling_input suspend t) = Inr () \<Longrightarrow>
   ScalableTarget.ResourceId t = Some resourceId \<Longrightarrow>
   RegisterScalableTarget (autoScaling d) (suspendAutoScaling_input suspend t) = Inl err \<Longrightarrow>
   fst (snd (suspendAutoScaling_targets d suspend (pre @ t # post))) =
     map (suspendAutoScaling_input suspend) pre @ [suspendAutoScaling_input suspend t] \<and>
   snd (snd (suspendAutoScaling_targets d suspend (pre @ t # post))) =
     Err (Wrap err (''failed to register scalable target '' @ resourceId @
                    '' set suspend to '' @ FormatBool suspend))"
  by (induction pre) (auto simp: Let_def split: prod.splits)

lemma targets_flags:
  "\<forall>r\<in>set (fst (snd (suspendAutoScaling_targets d suspend targets))).
     SuspendedState r = Some \<lparr>DynamicScalingInSuspended = Some suspend,
         DynamicScalingOutSuspended = Some suspend,
         ScheduledScalingSuspended = Some suspend\<rparr>"
  by (induction targets)
     (auto simp: Let_def suspendAutoScaling_input_def split: prod.splits option.splits sum.splits)

text \<open>
  C6. The listing is asked for the resource id \<open>service/<cluster>/<service>\<close>, and the
  targets it returns carry their resource id. With no target, \<^verbatim>\<open>suspendAutoScaling\<close>
  succeeds and issues no update. When every update succeeds it issues exactly one update
  per target, in order, and succeeds. Every update it issues, in any run, sets the three
  suspension flags to the requested boolean. When the update of a target fails after
  those of the targets before it succeeded, the updates issued are those and the failed
  one, nothing after it, and the error names the target.
\<close>

theorem suspendAutoScaling_updates:
  assumes "DescribeScalableTargets (autoScaling d)
             \<lparr>ResourceIds = [Some (''service/'' @ App.Cluster d @ ''/'' @ Service d)],
              DescribeScalableTargetsInput.ServiceNamespace = Some ''ecs'',
              DescribeScalableTargetsInput.ScalableDimension = Some ''ecs:service:DesiredCount''\<rparr> =
           Inr \<lparr>ScalableTargets = targets\<rparr>"
    and "\<forall>t\<in>set targets. ScalableTarget.ResourceId t \<noteq> None"
  shows "(targets = [] \<longrightarrow>
            fst (snd (suspendAutoScaling d suspend)) = [] \<and>
            snd (snd (suspendAutoScaling d suspend)) = Ok ()) \<and>
         ((\<forall>t\<in>set targets.
             RegisterScalableTarget (autoScaling d) (suspendAutoScaling_input suspend t) = Inr ()) \<longrightarrow>
            fst (snd (suspendAutoScaling d suspend)) =
              map (suspendAutoScaling_input suspend) targets \<and>
            length (fst (snd (suspendAutoScaling d suspend))) = length targets \<and>
            snd (snd (suspendAutoScaling d suspend)) = Ok ()) \<and>
         (\<forall>r\<in>set (fst (snd (suspendAutoScaling d suspend))).
            SuspendedState r =
              Some \<lparr>DynamicScalingInSuspended = Some suspend,
                    DynamicScalingOutSuspended = Some suspend,
                    ScheduledScalingSuspended = Some suspend\<rparr>) \<and>
         (targets = pre @ t # post \<and>
            (\<forall>p\<in>set pre.
               RegisterScalableTarget (autoScaling d) (suspendAutoScaling_input suspend p) = Inr ()) \<and>
            ScalableTarget.ResourceId t = Some resourceId \<and>
            RegisterScalableTarget (autoScaling d) (suspendAutoScaling_input suspend t) = Inl err \<longrightarrow>
            fst (snd (suspendAutoScaling d suspend)) =
              map (suspendAutoScaling_input suspend) pre @ [suspendAutoScaling_input suspend t] \<and>
            snd (snd (suspendAutoScaling d suspend)) =
              Err (Wrap err (''failed to register scalable target '' @ resourceId @
                             '' set suspend to '' @ FormatBool suspend)))"
proof -
  have run: "targets \<noteq> [] \<Longrightarrow>
             suspendAutoScaling d suspend = suspendAutoScaling_targets d suspend targets"
    using assms(1) by (simp add: suspendAutoScaling_def suspendAutoScaling_describe_def)
  have empty: "targets = [] \<Longrightarrow>
             fst (snd (suspendAutoScaling d suspend)) = [] \<and>
             snd (snd (suspendAutoScaling d suspend)) = Ok ()"
    using assms(1) by (simp add: suspendAutoScaling_def suspendAutoScaling_describe_def)
  have all: "(\<forall>t\<in>set targets.
             RegisterScalableTarget (autoScaling d) (suspendAutoScaling_input suspend t) = Inr ()) \<Longrightarrow>
            fst (snd (suspendAutoScaling d suspend)) =
              map (suspendAutoScaling_input suspend) targets \<and>
            length (fst (snd (suspendAutoScaling d suspend))) = length targets \<and>
            snd (snd (suspendAutoScaling d suspend)) = Ok ()"
  proof (cases "targets = []")
    case True
    then show ?thesis using empty by simp
  next
    case False
    assume "\<forall>t\<in>set targets.
             RegisterScalableTarget (autoScaling d) (suspendAutoScaling_input suspend t) = Inr ()"
    then show ?thesis
      using targets_all_succeed [OF assms(2), of d suspend] run [OF False] by simp
  qed
  have flags: "\<forall>r\<in>set (fst (snd (suspendAutoScaling d suspend))).
            SuspendedState r =
              Some \<lparr>DynamicScalingInSuspended = Some suspend,
                    DynamicScalingOutSuspended = Some suspend,
                    ScheduledScalingSuspended = Some suspend\<rparr>"
  proof (cases "targets = []")
    case True
    then show ?thesis using empty by simp
  next
    case False
    then show ?thesis using targets_flags [of d suspend targets] run by simp
  qed
  have abort: "\<And>pre t post resourceId err.
            targets = pre @ t # post \<Longrightarrow>
            (\<forall>p\<in>set pre.
               RegisterScalableTarget (autoScaling d) (suspendAutoScaling_input suspend p) = Inr ()) \<Longrightarrow>
            ScalableTarget.ResourceId t = Some resourceId \<Longrightarrow>
            RegisterScalableTarget (autoScaling d) (suspendAutoScaling_input suspend t) = Inl err \<Longrightarrow>
            fst (snd (suspendAutoScaling d suspend)) =
              map (suspendAutoScaling_input suspend) pre @ [suspendAutoScaling_input suspend t] \<and>
            snd (snd (suspendAutoScaling d suspend)) =
              Err (Wrap err (''failed to register scalable target '' @ resourceId @
                             '' set suspend to '' @ FormatBool suspend))"
  proof -
    fix pre t post resourceId err
    assume t: "targets = pre @ t # post"
      and ok: "\<forall>p\<in>set pre.
               RegisterScalableTarget (autoScaling d) (suspendAutoScaling_input suspend p) = Inr ()"
      and rid: "ScalableTarget.ResourceId t = Some resourceId"
      and err: "RegisterScalableTarget (autoScaling d) (suspendAutoScaling_input suspend t) = Inl err"
    have "\<forall>p\<in>set pre. ScalableTarget.ResourceId p \<noteq> None"
      using assms(2) t by simp
    from targets_abort [OF this ok rid err, of post] run t
    show "fst (snd (suspendAutoScaling d suspend)) =
              map (suspendAutoScaling_input suspend) pre @ [suspendAutoScaling_input suspend t] \<and>
            snd (snd (suspendAutoScaling d suspend)) =
              Err (Wrap err (''failed to register scalable target '' @ resourceId @
                             '' set suspend to '' @ FormatBool suspend))"
      by simp
  qed
  show ?thesis
    using empty all flags abort [of pre t post resourceId err] by blast
qed


theorem suspendAutoScaling_updates_witness:
  "fst (snd (suspendAutoScaling
      (app offline_ecs (autoScaling_with [] (\<lambda>_. Inl (New ''denied''))) 0) True)) = [] \<and>
   snd (snd (suspendAutoScaling
      (app offline_ecs (autoScaling_with [] (\<lambda>_. Inl (New ''denied''))) 0) True)) = Ok () \<and>
   fst (snd (suspendAutoScaling
      (app offline_ecs (autoScaling_with [target_of ''a'', target_of ''b''] (\<lambda>_. Inr ())) 0) True)) =
     map (suspendAutoScaling_input True) [target_of ''a'', target_of ''b''] \<and>
   snd (snd (suspendAutoScaling
      (app offline_ecs (autoScaling_with [target_of ''a'', target_of ''b''] (\<lambda>_. Inr ())) 0) True)) =
     Ok () \<and>
   fst (snd (suspendAutoScaling
      (app offline_ecs (autoScaling_with [target_of ''a'', target_of ''b'', target_of ''c'']
         (\<lambda>r. if RegisterScalableTargetInput.ResourceId r = Some ''b''
               then Inl (New ''denied'') else Inr ())) 0) False)) =
     map (suspendAutoScaling_input False) [target_of ''a''] @
       [suspendAutoScaling_input False (target_of ''b'')] \<and>
   snd (snd (suspendAutoScaling
      (app offline_ecs (autoScaling_with [target_of ''a'', target_of ''b'', target_of ''c'']
         (\<lambda>r. if RegisterScalableTargetInput.ResourceId r = Some ''b''
               then Inl (New ''denied'') else Inr ())) 0) False)) =
     Err (Wrap (New ''denied'')
            (''failed to register scalable target '' @ ''b'' @ '' set suspend to '' @
             FormatBool False))"
  using
    suspendAutoScaling_updates
      [of "app offline_ecs (autoScaling_with [] (\<lambda>_. Inl (New ''denied''))) 0" "[]" True]
    suspendAutoScaling_updates
      [of "app offline_ecs (autoScaling_with [target_of ''a'', target_of ''b''] (\<lambda>_. Inr ())) 0"
          "[target_of ''a'', target_of ''b'']" True]
    suspendAutoScaling_updates
      [of "app offline_ecs (autoScaling_with [target_of ''a'', target_of ''b'', target_of ''c'']
         (\<lambda>r. if RegisterScalableTargetInput.ResourceId r = Some ''b''
               then Inl (New ''denied'') else Inr ())) 0"
          "[target_of ''a'', target_of ''b'', target_of ''c'']" False
          "[target_of ''a'']" "target_of ''b''" "[target_of ''c'']" "''b''" "New ''denied''"]
  by (simp add: app_def autoScaling_with_def target_of_def suspendAutoScaling_input_def)

section \<open>The rollback target\<close>

lemma length_Split_from:
  "length (Split_from s sep piece) = Suc (length (filter (\<lambda>c. c = sep) s))"
  by (induction s arbitrary: piece) simp_all

lemma first_Split_from:
  "Split_from s sep piece ! 0 = piece @ takeWhile (\<lambda>c. c \<noteq> sep) s"
  by (induction s arbitrary: piece) simp_all

lemma index_Split_0: "index (Split s sep) 0 = Some (takeWhile (\<lambda>c. c \<noteq> sep) s)"
  by (simp add: Split_def index_def length_Split_from first_Split_from)

lemma page_append:
  "FindRollbackTarget_page a found (xs @ ys) =
     (case FindRollbackTarget_page a found xs of
        Inl r \<Rightarrow> Inl r
      | Inr f \<Rightarrow> FindRollbackTarget_page a f ys)"
  by (induction xs arbitrary: found) simp_all

lemma page_absent: "a \<notin> set xs \<Longrightarrow> FindRollbackTarget_page a False xs = Inr False"
  by (induction xs) auto

lemma page_found_last:
  "a \<notin> set pre \<Longrightarrow> FindRollbackTarget_page a False (pre @ [a]) = Inr True"
  by (simp add: page_append page_absent)

lemma loop_front:
  "serves d family token (front @ rest) \<Longrightarrow>
   \<forall>p\<in>set front. fst p \<noteq> [] \<Longrightarrow>
   FindRollbackTarget_page a found (concat (map fst front)) = Inr found' \<Longrightarrow>
   FindRollbackTarget_loop d a family found token issued =
     FindRollbackTarget_loop d a family found' (token_after token front)
       (issued @ requests family token front)"
proof (induction front arbitrary: token found issued)
  case Nil
  then show ?case by (simp add: token_after_def)
next
  case (Cons p ps)
  from Cons.prems(3) obtain f1 where
    f1: "FindRollbackTarget_page a found (fst p) = Inr f1"
    and rest: "FindRollbackTarget_page a f1 (concat (map fst ps)) = Inr found'"
    by (auto simp: page_append split: sum.splits)
  have api: "ListTaskDefinitionsWithContext (ecs d) (FindRollbackTarget_input family token) =
        Inr \<lparr>TaskDefinitionArns = fst p, ListTaskDefinitionsOutput.NextToken = snd p\<rparr>"
    and srv: "serves d family (snd p) (ps @ rest)"
    using Cons.prems(1) by simp_all
  have ne: "fst p \<noteq> []" and nes: "\<forall>q\<in>set ps. fst q \<noteq> []"
    using Cons.prems(2) by simp_all
  have "FindRollbackTarget_loop d a family found token issued =
        FindRollbackTarget_loop d a family f1 (snd p)
          (issued @ [FindRollbackTarget_input family token])"
    by (subst FindRollbackTarget_loop.simps) (simp add: api ne f1)
  also have "\<dots> = FindRollbackTarget_loop d a family found' (token_after (snd p) ps)
          ((issued @ [FindRollbackTarget_input family token]) @ requests family (snd p) ps)"
    by (rule Cons.IH [OF srv nes rest])
  finally show ?case
    by (simp add: token_after_def)
qed

lemma serves_append:
  "serves d family token (front @ rest) \<Longrightarrow> serves d family (token_after token front) rest"
  by (induction front arbitrary: token) (auto simp: token_after_def split: if_splits)

lemma requests_append:
  "requests family token (front @ rest) =
     requests family token front @ requests family (token_after token front) rest"
  by (induction front arbitrary: token) (simp_all add: token_after_def)

lemma pages_split:
  "concat (map fst pages) = xs @ y # ys \<Longrightarrow>
   \<exists>front pa pb nt later.
     pages = front @ (pa @ y # pb, nt) # later \<and> concat (map fst front) @ pa = xs"
proof (induction pages arbitrary: xs)
  case Nil
  then show ?case by simp
next
  case (Cons p ps)
  show ?case
  proof (cases "length xs < length (fst p)")
    case True
    from Cons.prems have "fst p @ concat (map fst ps) = xs @ y # ys" by simp
    with True obtain pb where "fst p = xs @ y # pb"
      by (auto simp: append_eq_append_conv2 append_eq_Cons_conv)
    then have "p # ps = [] @ (xs @ y # pb, snd p) # ps \<and> concat (map fst []) @ xs = xs"
      by (cases p) simp
    then show ?thesis by blast
  next
    case False
    from Cons.prems have "fst p @ concat (map fst ps) = xs @ y # ys" by simp
    with False obtain us where us: "xs = fst p @ us" "concat (map fst ps) = us @ y # ys"
      by (auto simp: append_eq_append_conv2 append_eq_Cons_conv)
    from Cons.IH [OF us(2)] obtain front pa pb nt later where
      "ps = front @ (pa @ y # pb, nt) # later" "concat (map fst front) @ pa = us"
      by blast
    then have "p # ps = (p # front) @ (pa @ y # pb, nt) # later \<and>
               concat (map fst (p # front)) @ pa = xs"
      using us(1) by simp
    then show ?thesis by blast
  qed
qed


text \<open>
  C1. The family history is listed in non-empty pages, the first answered to the request
  without token, each next one to the request with the token of the page before. The
  input ARN occurs in the listed sequence (\<open>pre\<close> is what precedes its first occurrence;
  in a descending sequence of revisions it occurs once) and \<open>nxt\<close> follows it. Then
  \<^verbatim>\<open>FindRollbackTarget\<close> returns \<open>nxt\<close>, on the same page or the next one, and the
  requests it issued are those for the pages up to the one \<open>nxt\<close> is on: it returns on
  observing it.
\<close>

theorem FindRollbackTarget_previous:
  assumes "serves d (takeWhile (\<lambda>c. c \<noteq> CHR '':'') (arnToName arn)) None pages"
    and "\<forall>p\<in>set pages. fst p \<noteq> []"
    and "concat (map fst pages) = pre @ arn # nxt # post"
    and "arn \<notin> set pre"
  shows "\<exists>front pa pb nt later.
           pages = front @ (pa @ nxt # pb, nt) # later \<and>
           concat (map fst front) @ pa = pre @ [arn] \<and>
           FindRollbackTarget arnToName d arn =
             Some (requests (takeWhile (\<lambda>c. c \<noteq> CHR '':'') (arnToName arn)) None
                     (front @ [(pa @ nxt # pb, nt)]),
                   Ok nxt)"
proof -
  let ?family = "takeWhile (\<lambda>c. c \<noteq> CHR '':'') (arnToName arn)"
  from assms(3) have "concat (map fst pages) = (pre @ [arn]) @ nxt # post" by simp
  from pages_split [OF this] obtain front pa pb nt later where
    split: "pages = front @ (pa @ nxt # pb, nt) # later"
    and before: "concat (map fst front) @ pa = pre @ [arn]"
    by blast
  have "FindRollbackTarget_page arn False (concat (map fst front) @ pa) = Inr True"
    using assms(4) unfolding before by (rule page_found_last)
  then obtain f1 where
    f1: "FindRollbackTarget_page arn False (concat (map fst front)) = Inr f1"
    and pa: "FindRollbackTarget_page arn f1 pa = Inr True"
    by (auto simp: page_append split: sum.splits)
  have srv: "serves d ?family None (front @ (pa @ nxt # pb, nt) # later)"
    using assms(1) split by simp
  have ne: "\<forall>p\<in>set front. fst p \<noteq> []"
    using assms(2) split by simp
  have api: "ListTaskDefinitionsWithContext (ecs d)
               (FindRollbackTarget_input ?family (token_after None front)) =
             Inr \<lparr>TaskDefinitionArns = pa @ nxt # pb, ListTaskDefinitionsOutput.NextToken = nt\<rparr>"
    using serves_append [OF srv] by simp
  have "FindRollbackTarget arnToName d arn =
          FindRollbackTarget_loop d arn ?family False None []"
    by (simp add: FindRollbackTarget_def index_Split_0)
  also have "\<dots> = FindRollbackTarget_loop d arn ?family f1 (token_after None front)
                     ([] @ requests ?family None front)"
    by (rule loop_front [OF srv ne f1])
  also have "\<dots> = Some (requests ?family None front @
                          [FindRollbackTarget_input ?family (token_after None front)], Ok nxt)"
    by (subst FindRollbackTarget_loop.simps) (simp add: api page_append pa)
  also have "requests ?family None front @
               [FindRollbackTarget_input ?family (token_after None front)] =
             requests ?family None (front @ [(pa @ nxt # pb, nt)])"
    by (simp add: requests_append)
  finally show ?thesis
    using split before by blast
qed


theorem FindRollbackTarget_previous_witness:
  "FindRollbackTarget (\<lambda>s. s)
      (app (ecs_with_pages (\<lambda>token.
              if token = None then ([''web:5'', ''web:4'', ''web:3''], Some ''t1'')
              else ([''web:2'', ''web:1''], None)))
         offline_autoScaling 0)
      ''web:3'' =
    Some ([FindRollbackTarget_input ''web'' None, FindRollbackTarget_input ''web'' (Some ''t1'')],
          Ok ''web:2'')"
proof -
  from FindRollbackTarget_previous
    [of "app (ecs_with_pages (\<lambda>token.
              if token = None then ([''web:5'', ''web:4'', ''web:3''], Some ''t1'')
              else ([''web:2'', ''web:1''], None)))
         offline_autoScaling 0"
        "\<lambda>s. s" "''web:3''"
        "[([''web:5'', ''web:4'', ''web:3''], Some ''t1''), ([''web:2'', ''web:1''], None)]"
        "[''web:5'', ''web:4'']" "''web:2''" "[''web:1'']"]
  obtain front pa pb nt later where
    split: "[([''web:5'', ''web:4'', ''web:3''], Some ''t1''), ([''web:2'', ''web:1''], None)] =
            front @ (pa @ ''web:2'' # pb, nt) # later"
    and before: "concat (map fst front) @ pa = [''web:5'', ''web:4'', ''web:3'']"
    and run: "FindRollbackTarget (\<lambda>s. s)
      (app (ecs_with_pages (\<lambda>token.
              if token = None then ([''web:5'', ''web:4'', ''web:3''], Some ''t1'')
              else ([''web:2'', ''web:1''], None)))
         offline_autoScaling 0) ''web:3'' =
        Some (requests ''web'' None (front @ [(pa @ ''web:2'' # pb, nt)]), Ok ''web:2'')"
    by (auto simp: app_def ecs_with_pages_def offline_ecs_def FindRollbackTarget_input_def)
  from split before have "front = [([''web:5'', ''web:4'', ''web:3''], Some ''t1'')] \<and> pa = [] \<and>
      pb = [''web:1''] \<and> nt = None"
    by (auto simp: append_eq_Cons_conv Cons_eq_append_conv)
  with run show ?thesis by simp
qed

lemma loop_empty_page:
  assumes "serves d family token (front @ [([], nt)])"
    and "\<forall>p\<in>set front. fst p \<noteq> []"
    and "FindRollbackTarget_page a found (concat (map fst front)) = Inr found'"
  shows "FindRollbackTarget_loop d a family found token issued =
           Some (issued @ requests family token (front @ [([], nt)]),
                 Err (New ''rollback target is not found''))"
proof -
  have api: "ListTaskDefinitionsWithContext (ecs d)
               (FindRollbackTarget_input family (token_after token front)) =
             Inr \<lparr>TaskDefinitionArns = [], ListTaskDefinitionsOutput.NextToken = nt\<rparr>"
    using serves_append [OF assms(1)] by simp
  have "FindRollbackTarget_loop d a family found token issued =
          FindRollbackTarget_loop d a family found' (token_after token front)
            (issued @ requests family token front)"
    by (rule loop_front [OF assms])
  also have "\<dots> = Some ((issued @ requests family token front) @
                          [FindRollbackTarget_input family (token_after token front)],
                        Err (New ''rollback target is not found''))"
    by (subst FindRollbackTarget_loop.simps) (simp add: api)
  finally show ?thesis
    by (simp add: requests_append)
qed

lemma page_Inr:
  "FindRollbackTarget_page a found xs = Inr f \<longleftrightarrow>
     (xs = [] \<and> f = found) \<or> (xs \<noteq> [] \<and> \<not> found \<and> f = (last xs = a) \<and> a \<notin> set (butlast xs))"
  by (induction xs arbitrary: found) auto


text \<open>
  When the platform ends the listing with an empty page, and the input ARN is the last of
  the sequence or is not in it, the loop returns the not-found error at that page.
\<close>

lemma FindRollbackTarget_not_found_on_empty_page:
  assumes "serves d (takeWhile (\<lambda>c. c \<noteq> CHR '':'') (arnToName arn)) None (pages @ [([], nt)])"
    and "\<forall>p\<in>set pages. fst p \<noteq> []"
    and "arn \<notin> set (butlast (concat (map fst pages)))"
  shows "FindRollbackTarget arnToName d arn =
           Some (requests (takeWhile (\<lambda>c. c \<noteq> CHR '':'') (arnToName arn)) None
                   (pages @ [([], nt)]),
                 Err (New ''rollback target is not found''))"
proof -
  from assms(3) obtain found' where
    "FindRollbackTarget_page arn False (concat (map fst pages)) = Inr found'"
    by (auto simp: page_Inr)
  from loop_empty_page [OF assms(1,2) this, of "[]"] show ?thesis
    by (simp add: FindRollbackTarget_def index_Split_0)
qed

lemma loop_never_returns_aux:
  assumes answers: "\<And>token. \<exists>arns nt.
      ListTaskDefinitionsWithContext (ecs d) (FindRollbackTarget_input family token) =
        Inr \<lparr>TaskDefinitionArns = arns, ListTaskDefinitionsOutput.NextToken = nt\<rparr> \<and>
      arns \<noteq> [] \<and> a \<notin> set arns"
  shows "FindRollbackTarget_loop d' a' family' found token issued = Some y \<Longrightarrow>
         d' = d \<and> a' = a \<and> family' = family \<and> \<not> found \<longrightarrow> False"
proof (erule FindRollbackTarget_loop.raw_induct [rotated 1], intro impI, elim conjE)
  fix f :: "App \<Rightarrow> string \<Rightarrow> string \<Rightarrow> bool \<Rightarrow> string option \<Rightarrow> ListTaskDefinitionsInput list \<Rightarrow>
            (ListTaskDefinitionsInput list \<times> string result) option"
    and d' a' family' found token issued y
  assume IH: "\<And>d' a' family' found token issued y.
      f d' a' family' found token issued = Some y \<Longrightarrow>
      d' = d \<and> a' = a \<and> family' = family \<and> \<not> found \<longrightarrow> False"
    and step: "(case ListTaskDefinitionsWithContext (ecs d') (FindRollbackTarget_input family' token) of
        Inl err \<Rightarrow>
          Some (issued @ [FindRollbackTarget_input family' token],
                Err (Wrap err ''failed to list taskdefinitions''))
      | Inr out \<Rightarrow>
          if length (TaskDefinitionArns out) = 0 then
            Some (issued @ [FindRollbackTarget_input family' token],
                  Err (New ''rollback target is not found''))
          else
            (case FindRollbackTarget_page a' found (TaskDefinitionArns out) of
               Inl tdArn \<Rightarrow>
                 Some (issued @ [FindRollbackTarget_input family' token], Ok tdArn)
             | Inr found' \<Rightarrow>
                 f d' a' family' found'
                   (ListTaskDefinitionsOutput.NextToken out)
                   (issued @ [FindRollbackTarget_input family' token]))) = Some y"
    and eqs: "d' = d" "a' = a" "family' = family" "\<not> found"
  from answers [of token] obtain arns nt where
    api: "ListTaskDefinitionsWithContext (ecs d) (FindRollbackTarget_input family token) =
        Inr \<lparr>TaskDefinitionArns = arns, ListTaskDefinitionsOutput.NextToken = nt\<rparr>"
    and ne: "arns \<noteq> []" and absent: "a \<notin> set arns"
    by blast
  from step have "f d a family False nt (issued @ [FindRollbackTarget_input family token]) = Some y"
    using eqs api ne page_absent [OF absent] by simp
  from IH [OF this] show False by simp
qed

lemma loop_never_returns:
  assumes "\<And>token. \<exists>arns nt.
      ListTaskDefinitionsWithContext (ecs d) (FindRollbackTarget_input family token) =
        Inr \<lparr>TaskDefinitionArns = arns, ListTaskDefinitionsOutput.NextToken = nt\<rparr> \<and>
      arns \<noteq> [] \<and> a \<notin> set arns"
  shows "FindRollbackTarget_loop d a family False token issued = None"
proof (cases "FindRollbackTarget_loop d a family False token issued")
  case None
  then show ?thesis .
next
  case (Some y)
  from loop_never_returns_aux [OF assms Some] show ?thesis by simp
qed

text \<open>
  C2, on the program. The platform lists a family in two pages and ends the listing with
  a nil next token on the last page; a request without token is answered with the first
  page. For the oldest revision \<open>web:1\<close> the loop marks it found on the last page, asks
  again without token and returns the newest revision \<open>web:5\<close> from the first page.
  For \<open>web:9\<close>, which is on no page, the loop never returns.
\<close>

theorem FindRollbackTarget_wraps_around:
  "FindRollbackTarget (\<lambda>s. s)
      (app (ecs_with_pages (\<lambda>token.
              if token = None then ([''web:5'', ''web:4'', ''web:3''], Some ''t1'')
              else ([''web:2'', ''web:1''], None)))
         offline_autoScaling 0)
      ''web:1'' =
     Some ([FindRollbackTarget_input ''web'' None,
            FindRollbackTarget_input ''web'' (Some ''t1''),
            FindRollbackTarget_input ''web'' None],
           Ok ''web:5'') \<and>
   FindRollbackTarget (\<lambda>s. s)
      (app (ecs_with_pages (\<lambda>token.
              if token = None then ([''web:5'', ''web:4'', ''web:3''], Some ''t1'')
              else ([''web:2'', ''web:1''], None)))
         offline_autoScaling 0)
      ''web:9'' = None"
proof
  let ?d = "app (ecs_with_pages (\<lambda>token.
              if token = None then ([''web:5'', ''web:4'', ''web:3''], Some ''t1'')
              else ([''web:2'', ''web:1''], None)))
         offline_autoScaling 0"
  have api1: "ListTaskDefinitionsWithContext (ecs ?d) (FindRollbackTarget_input ''web'' None) =
      Inr \<lparr>TaskDefinitionArns = [''web:5'', ''web:4'', ''web:3''],
           ListTaskDefinitionsOutput.NextToken = Some ''t1''\<rparr>"
    by (simp add: app_def ecs_with_pages_def offline_ecs_def FindRollbackTarget_input_def)
  have api2: "ListTaskDefinitionsWithContext (ecs ?d) (FindRollbackTarget_input ''web'' (Some ''t1'')) =
      Inr \<lparr>TaskDefinitionArns = [''web:2'', ''web:1''],
           ListTaskDefinitionsOutput.NextToken = None\<rparr>"
    by (simp add: app_def ecs_with_pages_def offline_ecs_def FindRollbackTarget_input_def)
  have "FindRollbackTarget (\<lambda>s. s) ?d ''web:1'' =
          FindRollbackTarget_loop ?d ''web:1'' ''web'' False None []"
    by (simp add: FindRollbackTarget_def index_Split_0)
  also have "\<dots> = FindRollbackTarget_loop ?d ''web:1'' ''web'' False (Some ''t1'')
                     [FindRollbackTarget_input ''web'' None]"
    by (subst FindRollbackTarget_loop.simps) (simp add: api1)
  also have "\<dots> = FindRollbackTarget_loop ?d ''web:1'' ''web'' True None
                     [FindRollbackTarget_input ''web'' None,
                      FindRollbackTarget_input ''web'' (Some ''t1'')]"
    by (subst FindRollbackTarget_loop.simps) (simp add: api2)
  also have "\<dots> = Some ([FindRollbackTarget_input ''web'' None,
                           FindRollbackTarget_input ''web'' (Some ''t1''),
                           FindRollbackTarget_input ''web'' None], Ok ''web:5'')"
    by (subst FindRollbackTarget_loop.simps) (simp add: api1)
  finally show "FindRollbackTarget (\<lambda>s. s) ?d ''web:1'' =
     Some ([FindRollbackTarget_input ''web'' None,
            FindRollbackTarget_input ''web'' (Some ''t1''),
            FindRollbackTarget_input ''web'' None],
           Ok ''web:5'')" .
  have "\<And>token. \<exists>arns nt.
      ListTaskDefinitionsWithContext (ecs ?d) (FindRollbackTarget_input ''web'' token) =
        Inr \<lparr>TaskDefinitionArns = arns, ListTaskDefinitionsOutput.NextToken = nt\<rparr> \<and>
      arns \<noteq> [] \<and> ''web:9'' \<notin> set arns"
    by (simp add: app_def ecs_with_pages_def offline_ecs_def FindRollbackTarget_input_def)
  from loop_never_returns [OF this]
  show "FindRollbackTarget (\<lambda>s. s) ?d ''web:9'' = None"
    by (simp add: FindRollbackTarget_def index_Split_0)
qed

section \<open>Waiting for a task, with or without its logs\<close>

lemma index_Split_no_sep: "sep \<notin> set s \<Longrightarrow> index (Split s sep) (Suc 0) = None"
proof -
  assume "sep \<notin> set s"
  then have "filter (\<lambda>c. c = sep) s = []"
    by (induction s) auto
  then show ?thesis
    by (simp add: index_def Split_def length_Split_from)
qed

lemma index_Nil: "index [] i = None"
  by (simp add: index_def)

lemma GetLogInfo_not_Err: "snd (GetLogInfo d task lc) \<noteq> Err e"
  by (simp add: GetLogInfo_def Let_def split: option.splits)

lemma GetLogInfo_Panic:
  "TaskArn task = None \<or> (\<exists>arn. TaskArn task = Some arn \<and> CHR ''/'' \<notin> set arn) \<or>
   lc = None \<or>
   (\<exists>lc'. lc = Some lc' \<and>
      (Options lc' ''awslogs-stream-prefix'' = None \<or> Options lc' ''awslogs-group'' = None)) \<or>
   Containers task = [] \<Longrightarrow>
   GetLogInfo d task lc = ([], Panic)"
  by (auto simp: GetLogInfo_def Let_def index_Split_no_sep index_Nil split: option.splits)

text \<open>
  C8, as stated: in every case other than a present configuration with driver
  \<open>awslogs\<close> and a stream prefix, the plain wait is performed. With a configuration whose
  log driver is nil the program panics on dereferencing it; the plain wait (which here
  would return the waiter's error) is not performed.
\<close>

theorem WaitRunTask_nil_driver_counterexample:
  "snd (snd (WaitRunTask (app offline_ecs offline_autoScaling 0)
      \<lparr>TaskArn = Some ''arn:aws:ecs:task/1'', Containers = [named_container ''app'' None None]\<rparr>
      (Some \<lparr>LogDriver = None, Options = Map.empty\<rparr>) 0)) = Panic \<and>
   ofError (WaitUntilTasksStoppedWithContext (ecs (app offline_ecs offline_autoScaling 0))
      (DescribeTasksInput (app offline_ecs offline_autoScaling 0)
         \<lparr>TaskArn = Some ''arn:aws:ecs:task/1'', Containers = [named_container ''app'' None None]\<rparr>)) =
     Err (New ''offline'')"
  by (simp add: WaitRunTask_def app_def offline_ecs_def ofError_def)

text \<open>
  C8, amended. \<^verbatim>\<open>WaitRunTask\<close> starts the log-tailing loop only when the log
  configuration is present, its log driver is \<open>awslogs\<close> and the stream-prefix option is
  set. When the configuration is absent, or its log driver is set and either differs from
  \<open>awslogs\<close> or comes without the stream-prefix option, it starts no loop (so no log is
  ever fetched) and returns what the plain stopped-wait returns.
\<close>

theorem WaitRunTask_log_tailing:
  "(fst (snd (WaitRunTask d task lc startedAt)) \<noteq> [] \<longrightarrow>
      (\<exists>lc'. lc = Some lc' \<and> LogDriver lc' = Some ''awslogs'' \<and>
             Options lc' ''awslogs-stream-prefix'' \<noteq> None)) \<and>
   (lc = None \<or>
    (\<exists>lc' logDriver. lc = Some lc' \<and> LogDriver lc' = Some logDriver \<and>
       (logDriver \<noteq> ''awslogs'' \<or> Options lc' ''awslogs-stream-prefix'' = None)) \<longrightarrow>
      WaitRunTask d task lc startedAt =
        ([Log d [''Waiting for run task...(it may take a while)''],
          Log d [''awslogs not configured'']],
         [],
         ofError (WaitUntilTasksStoppedWithContext (ecs d) (DescribeTasksInput d task))))"
  by (auto simp: WaitRunTask_def Let_def split: option.splits prod.splits result.splits)

theorem WaitRunTask_log_tailing_witness:
  "fst (snd (WaitRunTask (app offline_ecs offline_autoScaling 0)
      \<lparr>TaskArn = Some ''arn:aws:ecs:task/1'', Containers = [named_container ''app'' None None]\<rparr>
      (Some \<lparr>LogDriver = Some ''awslogs'',
             Options = [''awslogs-stream-prefix'' \<mapsto> ''web'', ''awslogs-group'' \<mapsto> ''logs'']\<rparr>)
      5)) = [LogTailer ''logs'' ''web/app/1'' 5] \<and>
   WaitRunTask (app offline_ecs offline_autoScaling 0)
      \<lparr>TaskArn = Some ''arn:aws:ecs:task/1'', Containers = [named_container ''app'' None None]\<rparr>
      (Some \<lparr>LogDriver = Some ''json-file'', Options = Map.empty\<rparr>) 5 =
     ([Log (app offline_ecs offline_autoScaling 0)
         [''Waiting for run task...(it may take a while)''],
       Log (app offline_ecs offline_autoScaling 0) [''awslogs not configured'']],
      [],
      ofError (WaitUntilTasksStoppedWithContext (ecs (app offline_ecs offline_autoScaling 0))
        (DescribeTasksInput (app offline_ecs offline_autoScaling 0)
           \<lparr>TaskArn = Some ''arn:aws:ecs:task/1'',
            Containers = [named_container ''app'' None None]\<rparr>)))"
proof -
  have run: "fst (snd (WaitRunTask (app offline_ecs offline_autoScaling 0)
      \<lparr>TaskArn = Some ''arn:aws:ecs:task/1'', Containers = [named_container ''app'' None None]\<rparr>
      (Some \<lparr>LogDriver = Some ''awslogs'',
             Options = [''awslogs-stream-prefix'' \<mapsto> ''web'', ''awslogs-group'' \<mapsto> ''logs'']\<rparr>)
      5)) = [LogTailer ''logs'' ''web/app/1'' 5]"
    by (simp add: WaitRunTask_def GetLogInfo_def Split_def index_def named_container_def Let_def)
  show ?thesis
    using run
      WaitRunTask_log_tailing
        [of "app offline_ecs offline_autoScaling 0"
          "\<lparr>TaskArn = Some ''arn:aws:ecs:task/1'', Containers = [named_container ''app'' None None]\<rparr>"
          "Some \<lparr>LogDriver = Some ''json-file'', Options = Map.empty\<rparr>" 5]
    by simp
qed

text \<open>
  C10. With a log configuration whose log driver is nil, \<^verbatim>\<open>WaitRunTask\<close> panics.
  \<^verbatim>\<open>GetLogInfo\<close> panics, having printed nothing, when the task ARN is nil or has no
  \<open>/\<close>, when the configuration or one of the options \<open>awslogs-stream-prefix\<close> and
  \<open>awslogs-group\<close> is absent, or when the task has no container; it never returns an
  error value. So a call of \<^verbatim>\<open>WaitRunTask\<close> that reaches the log-tailing path panics
  when the task ARN, the group option or the first container is missing.
\<close>

theorem log_tailing_partial:
  "(LogDriver lc' = None \<longrightarrow>
      WaitRunTask d task (Some lc') startedAt =
        ([Log d [''Waiting for run task...(it may take a while)'']], [], Panic)) \<and>
   (TaskArn task = None \<or> (\<exists>arn. TaskArn task = Some arn \<and> CHR ''/'' \<notin> set arn) \<or>
    lc = None \<or>
    (\<exists>c. lc = Some c \<and>
       (Options c ''awslogs-stream-prefix'' = None \<or> Options c ''awslogs-group'' = None)) \<or>
    Containers task = [] \<longrightarrow>
      GetLogInfo d task lc = ([], Panic)) \<and>
   (\<forall>e. snd (GetLogInfo d task lc) \<noteq> Err e) \<and>
   (LogDriver lc' = Some ''awslogs'' \<and> Options lc' ''awslogs-stream-prefix'' \<noteq> None \<and>
    (TaskArn task = None \<or> (\<exists>arn. TaskArn task = Some arn \<and> CHR ''/'' \<notin> set arn) \<or>
     Options lc' ''awslogs-group'' = None \<or> Containers task = []) \<longrightarrow>
      WaitRunTask d task (Some lc') startedAt =
        ([Log d [''Waiting for run task...(it may take a while)'']], [], Panic))"
proof -
  have a: "LogDriver lc' = None \<Longrightarrow>
      WaitRunTask d task (Some lc') startedAt =
        ([Log d [''Waiting for run task...(it may take a while)'']], [], Panic)"
    by (simp add: WaitRunTask_def)
  have b: "LogDriver lc' = Some ''awslogs'' \<and> Options lc' ''awslogs-stream-prefix'' \<noteq> None \<and>
    (TaskArn task = None \<or> (\<exists>arn. TaskArn task = Some arn \<and> CHR ''/'' \<notin> set arn) \<or>
     Options lc' ''awslogs-group'' = None \<or> Containers task = []) \<Longrightarrow>
      WaitRunTask d task (Some lc') startedAt =
        ([Log d [''Waiting for run task...(it may take a while)'']], [], Panic)"
  proof -
    assume h: "LogDriver lc' = Some ''awslogs'' \<and> Options lc' ''awslogs-stream-prefix'' \<noteq> None \<and>
      (TaskArn task = None \<or> (\<exists>arn. TaskArn task = Some arn \<and> CHR ''/'' \<notin> set arn) \<or>
       Options lc' ''awslogs-group'' = None \<or> Containers task = [])"
    then have "GetLogInfo d task (Some lc') = ([], Panic)"
      by (intro GetLogInfo_Panic) auto
    with h show ?thesis
      by (auto simp: WaitRunTask_def)
  qed
  show ?thesis
    using a b GetLogInfo_Panic [of task lc d] GetLogInfo_not_Err [of d task lc] by blast
qed

theorem log_tailing_partial_witness:
  "WaitRunTask (app offline_ecs offline_autoScaling 0)
      \<lparr>TaskArn = Some ''task-1'', Containers = []\<rparr>
      (Some \<lparr>LogDriver = None, Options = [''awslogs-stream-prefix'' \<mapsto> ''web'']\<rparr>) 7 =
     ([Log (app offline_ecs offline_autoScaling 0)
        [''Waiting for run task...(it may take a while)'']], [], Panic) \<and>
   GetLogInfo (app offline_ecs offline_autoScaling 0)
      \<lparr>TaskArn = Some ''task-1'', Containers = []\<rparr>
      (Some \<lparr>LogDriver = Some ''awslogs'', Options = [''awslogs-stream-prefix'' \<mapsto> ''web'']\<rparr>) =
     ([], Panic) \<and>
   WaitRunTask (app offline_ecs offline_autoScaling 0)
      \<lparr>TaskArn = Some ''task-1'', Containers = []\<rparr>
      (Some \<lparr>LogDriver = Some ''awslogs'', Options = [''awslogs-stream-prefix'' \<mapsto> ''web'']\<rparr>) 7 =
     ([Log (app offline_ecs offline_autoScaling 0)
        [''Waiting for run task...(it may take a while)'']], [], Panic)"
  using
    log_tailing_partial
      [of "\<lparr>LogDriver = None, Options = [''awslogs-stream-prefix'' \<mapsto> ''web'']\<rparr>"
          "app offline_ecs offline_autoScaling 0"
          "\<lparr>TaskArn = Some ''task-1'', Containers = []\<rparr>" 7 None]
    log_tailing_partial
      [of "\<lparr>LogDriver = Some ''awslogs'', Options = [''awslogs-stream-prefix'' \<mapsto> ''web'']\<rparr>"
          "app offline_ecs offline_autoScaling 0"
          "\<lparr>TaskArn = Some ''task-1'', Containers = []\<rparr>" 7
          "Some \<lparr>LogDriver = Some ''awslogs'', Options = [''awslogs-stream-prefix'' \<mapsto> ''web'']\<rparr>"]
  by simp

end
